theory Spec2Isabelle
  imports Main
begin

section \<open>Network activators of cloud-init (cloudinit/net/activators.py)\<close>

text \<open>
  The module selects one of five network backends and drives it through external
  commands. Everything outside the module is made explicit:
  \<^item> the machine (what the imported modules \<open>subp\<close>, \<open>eni\<close>, \<open>netplan\<close>,
    \<open>network_manager\<close>, \<open>networkd\<close> and \<open>Iproute2\<close> answer) is a record \<open>env\<close>;
  \<^item> what the module does to the machine and to the logger is a record \<open>state\<close>:
    the sequence of probes and external calls issued so far, and the log records
    emitted so far;
  \<^item> a Python exception is the \<open>Inl\<close> of a sum, a returned value its \<open>Inr\<close>.
  Strings are lists of code points below 256.
\<close>

subsection \<open>Python's \<open>repr\<close>, \<open>str.join\<close> and \<open>str.rstrip\<close>\<close>

definition hex_digit :: "nat \<Rightarrow> char" where
  "hex_digit n = ''0123456789abcdef'' ! (n mod 16)"

definition py_isprintable :: "char \<Rightarrow> bool" where
  "py_isprintable c =
     (let n = (of_char c :: nat)
      in (32 \<le> n \<and> n < 127) \<or> (161 \<le> n \<and> n \<noteq> 173))"

definition py_isspace :: "char \<Rightarrow> bool" where
  "py_isspace c =
     (let n = (of_char c :: nat)
      in (9 \<le> n \<and> n \<le> 13) \<or> (28 \<le> n \<and> n \<le> 32) \<or> n = 133 \<or> n = 160)"

definition repr_char :: "char \<Rightarrow> char \<Rightarrow> string" where
  "repr_char q c =
     (if c = q \<or> c = CHR 0x5C then [CHR 0x5C, c]
      else if c = CHR 0x09 then [CHR 0x5C, CHR ''t'']
      else if c = CHR 0x0A then [CHR 0x5C, CHR ''n'']
      else if c = CHR 0x0D then [CHR 0x5C, CHR ''r'']
      else if py_isprintable c then [c]
      else [CHR 0x5C, CHR ''x'',
            hex_digit ((of_char c :: nat) div 16), hex_digit ((of_char c :: nat) mod 16)])"

text \<open>\<open>repr\<close> of a \<open>str\<close>: single quotes, unless the string holds a single quote and no
  double quote.\<close>

definition py_repr_str :: "string \<Rightarrow> string" where
  "py_repr_str s =
     (let q = (if CHR 0x27 \<in> set s \<and> CHR 0x22 \<notin> set s then CHR 0x22 else CHR 0x27)
      in [q] @ concat (map (repr_char q) s) @ [q])"

fun py_join :: "string \<Rightarrow> string list \<Rightarrow> string" where
  "py_join sep [] = []"
| "py_join sep [x] = x"
| "py_join sep (x # y # ys) = x @ sep @ py_join sep (y # ys)"

text \<open>\<open>str\<close> of a list of \<open>str\<close>, as \<open>%s\<close> and an f-string format it.\<close>

definition py_repr_list :: "string list \<Rightarrow> string" where
  "py_repr_list xs = ''['' @ py_join '', '' (map py_repr_str xs) @ '']''"

definition py_rstrip :: "string \<Rightarrow> string" where
  "py_rstrip s = rev (dropWhile py_isspace (rev s))"

subsection \<open>Exceptions, the machine and the observable state\<close>

text \<open>
  \<open>ProcessExecutionError\<close> carries its \<open>cmd\<close> attribute, the only one the module reads.
  \<open>OtherError\<close> stands for an exception of any type the module does not name.
\<close>

datatype exn =
    ProcessExecutionError "string list"
  | ValueError string
  | KeyError string
  | NoActivatorException string
  | NotImplementedError
  | OtherError string

fun is_process_failure :: "exn \<Rightarrow> bool" where
  "is_process_failure (ProcessExecutionError cmd) = True"
| "is_process_failure e = False"

datatype event =
    EniAvailable
  | NetplanAvailable
  | NetworkManagerAvailable
  | NetworkdAvailable
  | Which string "string list"
  | Subp "string list"
  | LinkUp string
  | LinkDown string

datatype level = DEBUG | WARNING

text \<open>
  Modelled from the spec: \<open>util.logexc\<close> is not among the sources; the spec says only that
  the failure is logged with command context. \<open>LogExc\<close> is the record it leaves, holding
  the formatted message.
\<close>

datatype log_record = Log level string | LogExc string

type_synonym subp_result = "exn + string \<times> string"

text \<open>
  The answers of the machine. An external call may answer differently each time, so
  its answer depends on the calls issued before it; the availability probes read what is
  installed and are fixed.
\<close>

record env =
  eni_available :: bool
  netplan_available :: bool
  network_manager_available :: bool
  networkd_available :: bool
  subp_which :: "string \<Rightarrow> string list \<Rightarrow> string option"
  conn_filename :: "string \<Rightarrow> string option"
  subp_answer :: "event list \<Rightarrow> string list \<Rightarrow> subp_result"
  link_up_answer :: "event list \<Rightarrow> string \<Rightarrow> subp_result"
  link_down_answer :: "event list \<Rightarrow> string \<Rightarrow> subp_result"

record state =
  trace :: "event list"
  logs :: "log_record list"

type_synonym 'a action = "state \<Rightarrow> (exn + 'a) \<times> state"

definition emit :: "event \<Rightarrow> state \<Rightarrow> state" where
  "emit ev st = st\<lparr>trace := trace st @ [ev]\<rparr>"

definition log_msg :: "level \<Rightarrow> string \<Rightarrow> state \<Rightarrow> state" where
  "log_msg lvl msg st = st\<lparr>logs := logs st @ [Log lvl msg]\<rparr>"

definition logexc :: "string \<Rightarrow> state \<Rightarrow> state" where
  "logexc msg st = st\<lparr>logs := logs st @ [LogExc msg]\<rparr>"

text \<open>\<open>subp.subp(cmd)\<close>, \<open>Iproute2.link_up(dev)\<close> and \<open>Iproute2.link_down(dev)\<close>: the call is
  recorded, its answer is the machine's.\<close>

definition subp_subp :: "env \<Rightarrow> string list \<Rightarrow> state \<Rightarrow> subp_result \<times> state" where
  "subp_subp env cmd st = (subp_answer env (trace st) cmd, emit (Subp cmd) st)"

definition link_up :: "env \<Rightarrow> string \<Rightarrow> state \<Rightarrow> subp_result \<times> state" where
  "link_up env dev st = (link_up_answer env (trace st) dev, emit (LinkUp dev) st)"

definition link_down :: "env \<Rightarrow> string \<Rightarrow> state \<Rightarrow> subp_result \<times> state" where
  "link_down env dev st = (link_down_answer env (trace st) dev, emit (LinkDown dev) st)"

subsection \<open>The command execution bridge\<close>

text \<open>\<open>_alter_interface_callable\<close> and \<open>_alter_interface\<close> (the leading underscore is
  dropped). The callable acts on the state and answers as \<open>subp.subp\<close> does.\<close>

definition alter_interface_callable ::
  "(state \<Rightarrow> subp_result \<times> state) \<Rightarrow> bool \<Rightarrow> bool action" where
  "alter_interface_callable callable warn_on_stderr st =
     (case callable st of
        (Inr (out, err), st1) \<Rightarrow>
          (Inr True,
           if err \<noteq> []
           then log_msg (if warn_on_stderr then WARNING else DEBUG)
                  (''Received stderr output: '' @ err) st1
           else st1)
      | (Inl (ProcessExecutionError cmd), st1) \<Rightarrow>
          (Inr False,
           logexc (''Running interface command '' @ py_repr_list cmd @ '' failed'') st1)
      | (Inl e, st1) \<Rightarrow> (Inl e, st1))"

definition alter_interface :: "env \<Rightarrow> string list \<Rightarrow> string \<Rightarrow> bool \<Rightarrow> bool action" where
  "alter_interface env cmd device_name warn_on_stderr =
     alter_interface_callable (subp_subp env cmd) warn_on_stderr"

subsection \<open>The activation contract and its five variants\<close>

datatype activator =
    IfUpDownActivator
  | IfConfigActivator
  | NetworkManagerActivator
  | NetplanActivator
  | NetworkdActivator

text \<open>What each class's \<open>available()\<close> returns, and the probe it leaves in the trace.\<close>

fun is_available :: "env \<Rightarrow> activator \<Rightarrow> bool" where
  "is_available env IfUpDownActivator = eni_available env"
| "is_available env IfConfigActivator =
     (case subp_which env ''ifconfig'' [''/sbin''] of None \<Rightarrow> False | Some p \<Rightarrow> p \<noteq> [])"
| "is_available env NetworkManagerActivator = network_manager_available env"
| "is_available env NetplanActivator = netplan_available env"
| "is_available env NetworkdActivator = networkd_available env"

fun probe_event :: "activator \<Rightarrow> event" where
  "probe_event IfUpDownActivator = EniAvailable"
| "probe_event IfConfigActivator = Which ''ifconfig'' [''/sbin'']"
| "probe_event NetworkManagerActivator = NetworkManagerAvailable"
| "probe_event NetplanActivator = NetplanAvailable"
| "probe_event NetworkdActivator = NetworkdAvailable"

definition available :: "env \<Rightarrow> activator \<Rightarrow> state \<Rightarrow> bool \<times> state" where
  "available env cls st = (is_available env cls, emit (probe_event cls) st)"

text \<open>\<open>NetworkActivator.bring_up_interfaces\<close>: \<open>all(...)\<close> over a generator, which stops
  at the first false value. \<open>bring_up_interface\<close> is the method of whichever class the call
  is made on, so it is a parameter. The names are a finite list.\<close>

fun NetworkActivator_bring_up_interfaces ::
  "(string \<Rightarrow> 's \<Rightarrow> (exn + bool) \<times> 's) \<Rightarrow> string list \<Rightarrow> 's \<Rightarrow> (exn + bool) \<times> 's" where
  "NetworkActivator_bring_up_interfaces bring_up_interface [] st = (Inr True, st)"
| "NetworkActivator_bring_up_interfaces bring_up_interface (device # device_names) st =
     (case bring_up_interface device st of
        (Inl e, st1) \<Rightarrow> (Inl e, st1)
      | (Inr False, st1) \<Rightarrow> (Inr False, st1)
      | (Inr True, st1) \<Rightarrow>
          NetworkActivator_bring_up_interfaces bring_up_interface device_names st1)"

definition IfUpDown_bring_up_interface :: "env \<Rightarrow> string \<Rightarrow> bool action" where
  "IfUpDown_bring_up_interface env device_name =
     alter_interface env [''ifup'', device_name] device_name True"

definition IfUpDown_bring_down_interface :: "env \<Rightarrow> string \<Rightarrow> bool action" where
  "IfUpDown_bring_down_interface env device_name =
     alter_interface env [''ifdown'', device_name] device_name True"

definition IfConfig_bring_up_interface :: "env \<Rightarrow> string \<Rightarrow> bool action" where
  "IfConfig_bring_up_interface env device_name =
     alter_interface env [''ifconfig'', device_name, ''up''] device_name True"

definition IfConfig_bring_down_interface :: "env \<Rightarrow> string \<Rightarrow> bool action" where
  "IfConfig_bring_down_interface env device_name =
     alter_interface env [''ifconfig'', device_name, ''down''] device_name True"

definition NetworkManager_bring_up_interface :: "env \<Rightarrow> string \<Rightarrow> bool action" where
  "NetworkManager_bring_up_interface env device_name st =
     (case conn_filename env device_name of
        None \<Rightarrow>
          (Inr False,
           log_msg WARNING
             ''Unable to find an interface config file. Unable to bring up interface.'' st)
      | Some filename \<Rightarrow>
          (case alter_interface env [''nmcli'', ''connection'', ''load'', filename]
                  device_name True st of
             (Inl e, st1) \<Rightarrow> (Inl e, st1)
           | (Inr True, st1) \<Rightarrow>
               alter_interface env [''nmcli'', ''connection'', ''up'', ''filename'', filename]
                 device_name True st1
           | (Inr False, st1) \<Rightarrow>
               (case alter_interface env [''nmcli'', ''connection'', ''reload'']
                       device_name True st1 of
                  (Inl e, st2) \<Rightarrow> (Inl e, st2)
                | (Inr _, st2) \<Rightarrow>
                    alter_interface env
                      [''nmcli'', ''connection'', ''up'', ''ifname'', device_name]
                      device_name True st2)))"

definition NetworkManager_bring_down_interface :: "env \<Rightarrow> string \<Rightarrow> bool action" where
  "NetworkManager_bring_down_interface env device_name =
     alter_interface env [''nmcli'', ''device'', ''disconnect'', device_name] device_name True"

definition NetworkManager_bring_up_interfaces :: "env \<Rightarrow> string list \<Rightarrow> bool action" where
  "NetworkManager_bring_up_interfaces env device_names st =
     (case subp_subp env
             [''systemctl'', ''show'', ''--property=SubState'', ''NetworkManager.service''] st of
        (Inl e, st1) \<Rightarrow> (Inl e, st1)
      | (Inr (out, err), st1) \<Rightarrow>
          (let state = py_rstrip out;
               st2 = (if ''SubState=running'' \<noteq> state
                      then log_msg WARNING
                             (''Expected NetworkManager SubState=running, but detected: ''
                              @ state) st1
                      else st1)
           in case alter_interface env
                     [''systemctl'', ''try-reload-or-restart'', ''NetworkManager.service'']
                     ''all'' True st2 of
                (Inl e, st3) \<Rightarrow> (Inl e, st3)
              | (Inr False, st3) \<Rightarrow> (Inr False, st3)
              | (Inr True, st3) \<Rightarrow>
                  NetworkActivator_bring_up_interfaces
                    (NetworkManager_bring_up_interface env) device_names st3))"

definition NETPLAN_CMD :: "string list" where
  "NETPLAN_CMD = [''netplan'', ''apply'']"

definition netplan_debug :: string where
  "netplan_debug = ''Calling 'netplan apply' rather than altering individual interfaces''"

definition Netplan_bring_up_interface :: "env \<Rightarrow> string \<Rightarrow> bool action" where
  "Netplan_bring_up_interface env device_name st =
     alter_interface env NETPLAN_CMD ''all'' False (log_msg DEBUG netplan_debug st)"

definition Netplan_bring_up_interfaces :: "env \<Rightarrow> string list \<Rightarrow> bool action" where
  "Netplan_bring_up_interfaces env device_names st =
     alter_interface env NETPLAN_CMD ''all'' False (log_msg DEBUG netplan_debug st)"


definition Netplan_bring_down_interface :: "env \<Rightarrow> string \<Rightarrow> bool action" where
  "Netplan_bring_down_interface env device_name st =
     alter_interface env NETPLAN_CMD ''all'' False (log_msg DEBUG netplan_debug st)"

definition Networkd_bring_up_interface :: "env \<Rightarrow> string \<Rightarrow> bool action" where
  "Networkd_bring_up_interface env device_name =
     alter_interface_callable (link_up env device_name) True"


definition Networkd_bring_down_interface :: "env \<Rightarrow> string \<Rightarrow> bool action" where
  "Networkd_bring_down_interface env device_name =
     alter_interface_callable (link_down env device_name) True"



text \<open>Method resolution: the method each class answers a call with. The network state
  of \<open>bring_up_all_interfaces\<close> is the list of the names of its interfaces.\<close>

fun bring_up_interface :: "env \<Rightarrow> activator \<Rightarrow> string \<Rightarrow> bool action" where
  "bring_up_interface env IfUpDownActivator = IfUpDown_bring_up_interface env"
| "bring_up_interface env IfConfigActivator = IfConfig_bring_up_interface env"
| "bring_up_interface env NetworkManagerActivator = NetworkManager_bring_up_interface env"
| "bring_up_interface env NetplanActivator = Netplan_bring_up_interface env"
| "bring_up_interface env NetworkdActivator = Networkd_bring_up_interface env"

fun bring_down_interface :: "env \<Rightarrow> activator \<Rightarrow> string \<Rightarrow> bool action" where
  "bring_down_interface env IfUpDownActivator = IfUpDown_bring_down_interface env"
| "bring_down_interface env IfConfigActivator = IfConfig_bring_down_interface env"
| "bring_down_interface env NetworkManagerActivator = NetworkManager_bring_down_interface env"
| "bring_down_interface env NetplanActivator = Netplan_bring_down_interface env"
| "bring_down_interface env NetworkdActivator = Networkd_bring_down_interface env"

fun bring_up_interfaces :: "env \<Rightarrow> activator \<Rightarrow> string list \<Rightarrow> bool action" where
  "bring_up_interfaces env NetworkManagerActivator = NetworkManager_bring_up_interfaces env"
| "bring_up_interfaces env NetplanActivator = Netplan_bring_up_interfaces env"
| "bring_up_interfaces env cls =
     NetworkActivator_bring_up_interfaces (bring_up_interface env cls)"



subsection \<open>The registry and the selector\<close>

definition DEFAULT_PRIORITY :: "string list" where
  "DEFAULT_PRIORITY = [''eni'', ''netplan'', ''network-manager'', ''networkd'', ''ifconfig'']"

definition NAME_TO_ACTIVATOR :: "string \<rightharpoonup> activator" where
  "NAME_TO_ACTIVATOR =
     map_of [(''eni'', IfUpDownActivator),
             (''netplan'', NetplanActivator),
             (''network-manager'', NetworkManagerActivator),
             (''networkd'', NetworkdActivator),
             (''ifconfig'', IfConfigActivator)]"

text \<open>\<open>[NAME_TO_ACTIVATOR[name] for name in priority]\<close>: a missing key raises.\<close>

fun activator_classes :: "string list \<Rightarrow> exn + activator list" where
  "activator_classes [] = Inr []"
| "activator_classes (name # names) =
     (case NAME_TO_ACTIVATOR name of
        None \<Rightarrow> Inl (KeyError name)
      | Some cls \<Rightarrow>
          (case activator_classes names of
             Inl e \<Rightarrow> Inl e
           | Inr clss \<Rightarrow> Inr (cls # clss)))"

text \<open>\<open>next((c for c in classes if c.available()), None)\<close>: the probes run in order and
  stop at the first that answers true.\<close>

fun first_available :: "env \<Rightarrow> activator list \<Rightarrow> activator option action" where
  "first_available env [] st = (Inr None, st)"
| "first_available env (cls # clss) st =
     (case available env cls st of
        (True, st1) \<Rightarrow> (Inr (Some cls), st1)
      | (False, st1) \<Rightarrow> first_available env clss st1)"

definition search_activator :: "env \<Rightarrow> string list \<Rightarrow> activator option action" where
  "search_activator env priority st =
     (let unknown = filter (\<lambda>i. i \<notin> set DEFAULT_PRIORITY) priority
      in if unknown \<noteq> []
         then (Inl (ValueError (''Unknown activators provided in priority list: ''
                                @ py_repr_list unknown)), st)
         else (case activator_classes priority of
                 Inl e \<Rightarrow> (Inl e, st)
               | Inr clss \<Rightarrow> first_available env clss st))"

text \<open>\<open>str\<close> of a class object, as \<open>%s\<close> formats it.\<close>

fun class_name :: "activator \<Rightarrow> string" where
  "class_name IfUpDownActivator = ''IfUpDownActivator''"
| "class_name IfConfigActivator = ''IfConfigActivator''"
| "class_name NetworkManagerActivator = ''NetworkManagerActivator''"
| "class_name NetplanActivator = ''NetplanActivator''"
| "class_name NetworkdActivator = ''NetworkdActivator''"

definition class_str :: "activator \<Rightarrow> string" where
  "class_str cls = ''<class 'cloudinit.net.activators.'' @ class_name cls @ [CHR 0x27] @ ''>''"

definition select_activator :: "env \<Rightarrow> string list option \<Rightarrow> activator action" where
  "select_activator env priority_opt st =
     (let priority = (case priority_opt of None \<Rightarrow> DEFAULT_PRIORITY | Some p \<Rightarrow> p)
      in case search_activator env priority st of
           (Inl e, st1) \<Rightarrow> (Inl e, st1)
         | (Inr None, st1) \<Rightarrow>
             (Inl (NoActivatorException
                     (''No available network activators found. Searched through list: ''
                      @ py_repr_list priority)), st1)
         | (Inr (Some selected), st1) \<Rightarrow>
             (Inr selected,
              log_msg DEBUG
                (''Using selected activator: '' @ class_str selected @ '' from priority: ''
                 @ py_repr_list priority) st1))"

subsection \<open>Sample machines\<close>

text \<open>Concrete machines and a concrete starting state, on which the theorems below are
  instantiated.\<close>

definition initial :: state where
  "initial = \<lparr>trace = [], logs = []\<rparr>"

text \<open>Nothing is installed; every command succeeds and prints nothing.\<close>

definition quiet_machine :: env where
  "quiet_machine =
     \<lparr>eni_available = False, netplan_available = False,
      network_manager_available = False, networkd_available = False,
      subp_which = (\<lambda>_ _. None),
      conn_filename = (\<lambda>_. None),
      subp_answer = (\<lambda>_ _. Inr ([], [])),
      link_up_answer = (\<lambda>_ _. Inr ([], [])),
      link_down_answer = (\<lambda>_ _. Inr ([], []))\<rparr>"

text \<open>Every command succeeds and writes to stderr.\<close>

definition noisy_machine :: env where
  "noisy_machine = quiet_machine\<lparr>subp_answer := (\<lambda>_ _. Inr ([], ''deprecated option''))\<rparr>"

text \<open>Every command fails with a process execution error.\<close>

definition broken_machine :: env where
  "broken_machine =
     quiet_machine
       \<lparr>subp_answer := (\<lambda>_ cmd. Inl (ProcessExecutionError cmd)),
        link_up_answer := (\<lambda>_ dev. Inl (ProcessExecutionError [''ip'', ''link'', ''set'', ''dev'', dev, ''up''])),
        link_down_answer := (\<lambda>_ dev. Inl (ProcessExecutionError [''ip'', ''link'', ''set'', ''dev'', dev, ''down'']))\<rparr>"

text \<open>Every command raises an exception that is not a process execution error.\<close>

definition crashing_machine :: env where
  "crashing_machine = quiet_machine\<lparr>subp_answer := (\<lambda>_ _. Inl (OtherError ''TypeError''))\<rparr>"

text \<open>NetworkManager is installed and has a connection file for every interface, but
  \<open>nmcli connection load\<close> fails.\<close>

definition nm_path :: "string \<Rightarrow> string" where
  "nm_path dev = ''/etc/NetworkManager/system-connections/cloud-init-'' @ dev @ ''.nmconnection''"

definition nm_machine :: env where
  "nm_machine =
     quiet_machine
       \<lparr>network_manager_available := True,
        conn_filename := (\<lambda>dev. Some (nm_path dev)),
        subp_answer := (\<lambda>_ cmd. if take 3 cmd = [''nmcli'', ''connection'', ''load'']
                                 then Inl (ProcessExecutionError cmd) else Inr ([], []))\<rparr>"

text \<open>Netplan and networkd are installed; the commands are those of the quiet machine.\<close>

definition netplan_machine :: env where
  "netplan_machine = quiet_machine\<lparr>netplan_available := True, networkd_available := True\<rparr>"

text \<open>Every command succeeds and prints nothing, but \<open>ifup eth1\<close> fails as a process.\<close>

definition flaky_machine :: env where
  "flaky_machine =
     quiet_machine
       \<lparr>subp_answer := (\<lambda>_ cmd. if cmd = [''ifup'', ''eth1'']
                                 then Inl (ProcessExecutionError cmd) else Inr ([], []))\<rparr>"

section \<open>Properties\<close>

lemmas repr_defs = py_repr_list_def py_repr_str_def repr_char_def py_isprintable_def Let_def

lemma trace_alter_interface:
  "trace (snd (alter_interface env cmd dev w st)) = trace st @ [Subp cmd]"
  by (simp add: alter_interface_def alter_interface_callable_def subp_subp_def emit_def
      log_msg_def logexc_def split: sum.splits exn.splits prod.splits)

lemma alter_interface_ok:
  "subp_answer env (trace st) cmd = Inr oe \<Longrightarrow> fst (alter_interface env cmd dev w st) = Inr True"
  by (cases oe) (simp add: alter_interface_def alter_interface_callable_def subp_subp_def)

lemma alter_interface_fail:
  "subp_answer env (trace st) cmd = Inl (ProcessExecutionError c) \<Longrightarrow>
   fst (alter_interface env cmd dev w st) = Inr False"
  by (simp add: alter_interface_def alter_interface_callable_def subp_subp_def)

lemma alter_interface_raise:
  "subp_answer env (trace st) cmd = Inl e \<Longrightarrow> \<not> is_process_failure e \<Longrightarrow>
   fst (alter_interface env cmd dev w st) = Inl e"
  by (cases e) (simp_all add: alter_interface_def alter_interface_callable_def subp_subp_def)

lemma alter_interface_expected:
  assumes "\<forall>e. subp_answer env (trace st) cmd = Inl e \<longrightarrow> is_process_failure e"
  shows "\<exists>b. fst (alter_interface env cmd dev w st) = Inr b"
proof (cases "subp_answer env (trace st) cmd")
  case (Inl e)
  with assms have "is_process_failure e" by simp
  then obtain c where "e = ProcessExecutionError c" by (cases e) simp_all
  with Inl show ?thesis by (auto dest: alter_interface_fail)
next
  case (Inr oe)
  then show ?thesis by (auto dest: alter_interface_ok)
qed

lemma NAME_TO_ACTIVATOR_known:
  "name \<in> set DEFAULT_PRIORITY \<Longrightarrow> \<exists>cls. NAME_TO_ACTIVATOR name = Some cls"
  by (auto simp: DEFAULT_PRIORITY_def NAME_TO_ACTIVATOR_def)

lemma activator_classes_known:
  "set priority \<subseteq> set DEFAULT_PRIORITY \<Longrightarrow>
   activator_classes priority = Inr (List.map_filter NAME_TO_ACTIVATOR priority) \<and>
   map NAME_TO_ACTIVATOR priority = map Some (List.map_filter NAME_TO_ACTIVATOR priority)"
proof (induction priority)
  case Nil
  then show ?case by (simp add: List.map_filter_simps)
next
  case (Cons name names)
  then obtain cls where "NAME_TO_ACTIVATOR name = Some cls"
    using NAME_TO_ACTIVATOR_known [of name] by auto
  with Cons show ?case by (simp add: List.map_filter_simps)
qed

lemma first_available_find:
  "fst (first_available env clss st) = Inr (find (is_available env) clss)"
  by (induction clss arbitrary: st) (simp_all add: available_def)


lemma no_unknown:
  "set priority \<subseteq> set DEFAULT_PRIORITY \<Longrightarrow>
   filter (\<lambda>i. i \<notin> set DEFAULT_PRIORITY) priority = []"
  by (induction priority) auto




lemma bring_up_interfaces_append:
  "NetworkActivator_bring_up_interfaces bring_up passed st = (Inr True, st1) \<Longrightarrow>
   NetworkActivator_bring_up_interfaces bring_up (passed @ rest) st =
     NetworkActivator_bring_up_interfaces bring_up rest st1"
proof (induction passed arbitrary: st)
  case Nil
  then show ?case by simp
next
  case (Cons d ds)
  obtain r st' where s: "bring_up d st = (r, st')"
    by (cases "bring_up d st")
  show ?case
  proof (cases r)
    case (Inl e)
    with s Cons.prems show ?thesis by simp
  next
    case (Inr b)
    with s Cons show ?thesis by (cases b) simp_all
  qed
qed

lemma bring_up_interfaces_all_true:
  "\<forall>i<length passed. bring_up (passed ! i) (s i) = (Inr True, s (Suc i)) \<Longrightarrow>
   NetworkActivator_bring_up_interfaces bring_up passed (s 0) = (Inr True, s (length passed))"
proof (induction passed arbitrary: s)
  case Nil
  then show ?case by simp
next
  case (Cons d ds)
  have first: "bring_up d (s 0) = (Inr True, s (Suc 0))"
    using Cons.prems by force
  have later: "\<forall>i<length ds. bring_up (ds ! i) (s (Suc i)) = (Inr True, s (Suc (Suc i)))"
    using Cons.prems by force
  have "NetworkActivator_bring_up_interfaces bring_up ds (s (Suc 0)) =
          (Inr True, s (Suc (length ds)))"
    using Cons.IH [of "\<lambda>i. s (Suc i)"] later by simp
  with first show ?case by simp
qed

subsection \<open>The command execution bridge\<close>

text \<open>
  C4. When the callable raises a process execution error, the bridge returns false and
  leaves one \<open>logexc\<close> record that names the failed command; an exception of any other
  type comes out of the bridge as it went in, and nothing is logged.
\<close>

theorem bridge_absorbs_process_failure:
  "(callable st = (Inl (ProcessExecutionError cmd), st1) \<longrightarrow>
      alter_interface_callable callable warn_on_stderr st =
        (Inr False,
         st1\<lparr>logs := logs st1 @
            [LogExc (''Running interface command '' @ py_repr_list cmd @ '' failed'')]\<rparr>)) \<and>
   (callable st = (Inl e, st1) \<and> \<not> is_process_failure e \<longrightarrow>
      alter_interface_callable callable warn_on_stderr st = (Inl e, st1))"
  by (cases e) (simp_all add: alter_interface_callable_def logexc_def)

theorem bridge_absorbs_process_failure_witness:
  "alter_interface broken_machine [''ifup'', ''eth0''] ''eth0'' True initial =
     (Inr False,
      \<lparr>trace = [Subp [''ifup'', ''eth0'']],
       logs = [LogExc ''Running interface command ['ifup', 'eth0'] failed'']\<rparr>) \<and>
   alter_interface crashing_machine [''ifup'', ''eth0''] ''eth0'' True initial =
     (Inl (OtherError ''TypeError''), \<lparr>trace = [Subp [''ifup'', ''eth0'']], logs = []\<rparr>)"
proof -
  have a: "subp_subp broken_machine [''ifup'', ''eth0''] initial =
     (Inl (ProcessExecutionError [''ifup'', ''eth0'']),
      \<lparr>trace = [Subp [''ifup'', ''eth0'']], logs = []\<rparr>)"
    by (simp add: subp_subp_def broken_machine_def quiet_machine_def initial_def emit_def)
  have b: "subp_subp crashing_machine [''ifup'', ''eth0''] initial =
     (Inl (OtherError ''TypeError''), \<lparr>trace = [Subp [''ifup'', ''eth0'']], logs = []\<rparr>)"
    by (simp add: subp_subp_def crashing_machine_def quiet_machine_def initial_def emit_def)
  have r: "py_repr_list [''ifup'', ''eth0''] = ''['ifup', 'eth0']''"
    by (simp add: repr_defs)
  show ?thesis
    using bridge_absorbs_process_failure
            [of "subp_subp broken_machine [''ifup'', ''eth0'']" initial "[''ifup'', ''eth0'']"
                _ True "OtherError ''x''"]
          bridge_absorbs_process_failure
            [of "subp_subp crashing_machine [''ifup'', ''eth0'']" initial "[]"
                _ True "OtherError ''TypeError''"]
          a b
    by (simp add: alter_interface_def r)
qed

text \<open>
  C5. When the callable returns, the bridge returns true. It logs the stderr output, if
  there is any, in one record: at WARNING when \<open>warn_on_stderr\<close> is true (the default),
  at DEBUG when it is false. It issues nothing of its own.
\<close>

theorem bridge_success_logs_stderr:
  "callable st = (Inr (out, err), st1) \<Longrightarrow>
   fst (alter_interface_callable callable warn_on_stderr st) = Inr True \<and>
   trace (snd (alter_interface_callable callable warn_on_stderr st)) = trace st1 \<and>
   logs (snd (alter_interface_callable callable warn_on_stderr st)) =
     logs st1 @ (if err = [] then []
                 else [Log (if warn_on_stderr then WARNING else DEBUG)
                         (''Received stderr output: '' @ err)])"
  by (simp add: alter_interface_callable_def log_msg_def)

theorem bridge_success_logs_stderr_witness:
  "alter_interface noisy_machine NETPLAN_CMD ''all'' True initial =
     (Inr True, \<lparr>trace = [Subp [''netplan'', ''apply'']],
                 logs = [Log WARNING ''Received stderr output: deprecated option'']\<rparr>) \<and>
   alter_interface noisy_machine NETPLAN_CMD ''all'' False initial =
     (Inr True, \<lparr>trace = [Subp [''netplan'', ''apply'']],
                 logs = [Log DEBUG ''Received stderr output: deprecated option'']\<rparr>) \<and>
   alter_interface quiet_machine NETPLAN_CMD ''all'' True initial =
     (Inr True, \<lparr>trace = [Subp [''netplan'', ''apply'']], logs = []\<rparr>)"
proof -
  have a: "subp_subp noisy_machine NETPLAN_CMD initial =
     (Inr ([], ''deprecated option''), \<lparr>trace = [Subp [''netplan'', ''apply'']], logs = []\<rparr>)"
    by (simp add: subp_subp_def noisy_machine_def quiet_machine_def initial_def emit_def
        NETPLAN_CMD_def)
  have b: "subp_subp quiet_machine NETPLAN_CMD initial =
     (Inr ([], []), \<lparr>trace = [Subp [''netplan'', ''apply'']], logs = []\<rparr>)"
    by (simp add: subp_subp_def quiet_machine_def initial_def emit_def NETPLAN_CMD_def)
  show ?thesis
    using bridge_success_logs_stderr
            [of "subp_subp noisy_machine NETPLAN_CMD" initial _ _ _ True, OF a]
          bridge_success_logs_stderr
            [of "subp_subp noisy_machine NETPLAN_CMD" initial _ _ _ False, OF a]
          bridge_success_logs_stderr
            [of "subp_subp quiet_machine NETPLAN_CMD" initial _ _ _ True, OF b]
    by (simp add: alter_interface_def prod_eq_iff)
qed

subsection \<open>The variants\<close>

text \<open>
  C10. When \<open>conn_filename\<close> finds no connection file for the interface, the
  NetworkManager variant's \<open>bring_up_interface\<close> returns false, issues no external
  command and logs one warning.
\<close>

theorem nm_no_connection_file:
  "conn_filename env device_name = None \<Longrightarrow>
   fst (NetworkManager_bring_up_interface env device_name st) = Inr False \<and>
   trace (snd (NetworkManager_bring_up_interface env device_name st)) = trace st \<and>
   logs (snd (NetworkManager_bring_up_interface env device_name st)) =
     logs st @ [Log WARNING
        ''Unable to find an interface config file. Unable to bring up interface.'']"
  by (simp add: NetworkManager_bring_up_interface_def log_msg_def)

theorem nm_no_connection_file_witness:
  "bring_up_interface quiet_machine NetworkManagerActivator ''eth0'' initial =
     (Inr False,
      \<lparr>trace = [],
       logs = [Log WARNING
          ''Unable to find an interface config file. Unable to bring up interface.'']\<rparr>)"
proof -
  have a: "conn_filename quiet_machine ''eth0'' = None"
    by (simp add: quiet_machine_def)
  show ?thesis
    using nm_no_connection_file [OF a, of initial]
    by (simp add: prod_eq_iff initial_def)
qed

text \<open>
  C6. The netplan variant's \<open>bring_up_interface\<close>, \<open>bring_down_interface\<close> and
  \<open>bring_up_interfaces\<close> do the same thing whatever names they are given: one debug
  record, then the single command \<open>['netplan', 'apply']\<close> through the bridge with
  \<open>warn_on_stderr\<close> false, so that stderr output of a successful run is logged at DEBUG.
\<close>

theorem netplan_ignores_interface_names:
  "bring_up_interface env NetplanActivator device_name st =
     alter_interface env [''netplan'', ''apply''] ''all'' False (log_msg DEBUG netplan_debug st) \<and>
   bring_down_interface env NetplanActivator device_name st =
     alter_interface env [''netplan'', ''apply''] ''all'' False (log_msg DEBUG netplan_debug st) \<and>
   bring_up_interfaces env NetplanActivator device_names st =
     alter_interface env [''netplan'', ''apply''] ''all'' False (log_msg DEBUG netplan_debug st) \<and>
   trace (snd (alter_interface env [''netplan'', ''apply''] ''all'' False
                 (log_msg DEBUG netplan_debug st))) =
     trace st @ [Subp [''netplan'', ''apply'']] \<and>
   (subp_answer env (trace st) [''netplan'', ''apply''] = Inr (out, err) \<longrightarrow>
      alter_interface env [''netplan'', ''apply''] ''all'' False
          (log_msg DEBUG netplan_debug st) =
        (Inr True,
         \<lparr>trace = trace st @ [Subp [''netplan'', ''apply'']],
          logs = logs st @ [Log DEBUG netplan_debug] @
                 (if err = [] then [] else [Log DEBUG (''Received stderr output: '' @ err)])\<rparr>))"
  by (simp add: Netplan_bring_up_interface_def Netplan_bring_down_interface_def
      Netplan_bring_up_interfaces_def NETPLAN_CMD_def trace_alter_interface)
     (simp add: alter_interface_def alter_interface_callable_def subp_subp_def emit_def
      log_msg_def)

theorem netplan_ignores_interface_names_witness:
  "bring_up_interface noisy_machine NetplanActivator ''eth0'' initial =
     (Inr True,
      \<lparr>trace = [Subp [''netplan'', ''apply'']],
       logs = [Log DEBUG netplan_debug,
               Log DEBUG ''Received stderr output: deprecated option'']\<rparr>) \<and>
   bring_down_interface noisy_machine NetplanActivator ''wlan0'' initial =
     bring_up_interface noisy_machine NetplanActivator ''eth0'' initial \<and>
   bring_up_interfaces noisy_machine NetplanActivator [''eth1'', ''eth2''] initial =
     bring_up_interface noisy_machine NetplanActivator ''eth0'' initial"
proof -
  have a: "subp_answer noisy_machine (trace initial) [''netplan'', ''apply''] =
             Inr ([], ''deprecated option'')"
    by (simp add: noisy_machine_def quiet_machine_def)
  show ?thesis
    using netplan_ignores_interface_names [of noisy_machine "''eth0''" initial "[]" "[]"
            "''deprecated option''"]
          netplan_ignores_interface_names [of noisy_machine "''wlan0''" initial
            "[''eth1'', ''eth2'']" "[]" "''deprecated option''"]
          a
    by (simp add: initial_def)
qed

text \<open>
  C7. The NetworkManager variant's \<open>bring_up_interface\<close>, for an interface that has a
  connection file: when \<open>nmcli connection load\<close> fails with a process execution error,
  it issues \<open>nmcli connection reload\<close> and then brings the connection up by \<open>ifname\<close>
  and the interface name (the reload itself may succeed or fail as a process; an exception
  of another type from it propagates, as from every command); when the load succeeds, it
  brings the connection up by \<open>filename\<close> and the file's path.
\<close>

theorem nm_load_failure_falls_back_to_ifname:
  "conn_filename env device_name = Some filename \<Longrightarrow>
   (subp_answer env (trace st) [''nmcli'', ''connection'', ''load'', filename] =
        Inl (ProcessExecutionError cmd) \<and>
    (\<forall>e. subp_answer env (trace st @ [Subp [''nmcli'', ''connection'', ''load'', filename]])
            [''nmcli'', ''connection'', ''reload''] = Inl e \<longrightarrow> is_process_failure e) \<longrightarrow>
      trace (snd (NetworkManager_bring_up_interface env device_name st)) =
        trace st @ [Subp [''nmcli'', ''connection'', ''load'', filename],
                    Subp [''nmcli'', ''connection'', ''reload''],
                    Subp [''nmcli'', ''connection'', ''up'', ''ifname'', device_name]]) \<and>
   (subp_answer env (trace st) [''nmcli'', ''connection'', ''load'', filename] =
        Inr (out, err) \<longrightarrow>
      trace (snd (NetworkManager_bring_up_interface env device_name st)) =
        trace st @ [Subp [''nmcli'', ''connection'', ''load'', filename],
                    Subp [''nmcli'', ''connection'', ''up'', ''filename'', filename]])"
proof -
  assume cf: "conn_filename env device_name = Some filename"
  let ?load = "[''nmcli'', ''connection'', ''load'', filename]"
  let ?reload = "[''nmcli'', ''connection'', ''reload'']"
  obtain r1 st1 where l: "alter_interface env ?load device_name True st = (r1, st1)"
    by (cases "alter_interface env ?load device_name True st")
  have t1: "trace st1 = trace st @ [Subp ?load]"
    using trace_alter_interface [of env ?load device_name True st] l by simp
  obtain r2 st2 where r: "alter_interface env ?reload device_name True st1 = (r2, st2)"
    by (cases "alter_interface env ?reload device_name True st1")
  have t2: "trace st2 = trace st1 @ [Subp ?reload]"
    using trace_alter_interface [of env ?reload device_name True st1] r by simp
  show ?thesis
  proof (intro conjI impI)
    assume a: "subp_answer env (trace st) ?load = Inl (ProcessExecutionError cmd) \<and>
      (\<forall>e. subp_answer env (trace st @ [Subp ?load]) ?reload = Inl e \<longrightarrow> is_process_failure e)"
    have "r1 = Inr False"
      using alter_interface_fail [of env st ?load cmd device_name True] a l by simp
    moreover obtain b where "r2 = Inr b"
      using alter_interface_expected [of env st1 ?reload device_name True] a r t1 by auto
    ultimately show "trace (snd (NetworkManager_bring_up_interface env device_name st)) =
        trace st @ [Subp ?load, Subp ?reload,
                    Subp [''nmcli'', ''connection'', ''up'', ''ifname'', device_name]]"
      using cf l r t1 t2
      by (simp add: NetworkManager_bring_up_interface_def trace_alter_interface)
  next
    assume a: "subp_answer env (trace st) ?load = Inr (out, err)"
    have "r1 = Inr True"
      using alter_interface_ok [of env st ?load _ device_name True] a l by simp
    then show "trace (snd (NetworkManager_bring_up_interface env device_name st)) =
        trace st @ [Subp ?load, Subp [''nmcli'', ''connection'', ''up'', ''filename'', filename]]"
      using cf l t1
      by (simp add: NetworkManager_bring_up_interface_def trace_alter_interface)
  qed
qed

theorem nm_load_failure_falls_back_to_ifname_witness:
  "NetworkManager_bring_up_interface nm_machine ''eth0'' initial =
     (Inr True,
      \<lparr>trace = [Subp [''nmcli'', ''connection'', ''load'', nm_path ''eth0''],
                Subp [''nmcli'', ''connection'', ''reload''],
                Subp [''nmcli'', ''connection'', ''up'', ''ifname'', ''eth0'']],
       logs = [LogExc (''Running interface command '' @
                 py_repr_list [''nmcli'', ''connection'', ''load'', nm_path ''eth0''] @
                 '' failed'')]\<rparr>) \<and>
   trace (snd (NetworkManager_bring_up_interface
                 (nm_machine\<lparr>subp_answer := (\<lambda>_ _. Inr ([], []))\<rparr>) ''eth0'' initial)) =
     [Subp [''nmcli'', ''connection'', ''load'', nm_path ''eth0''],
      Subp [''nmcli'', ''connection'', ''up'', ''filename'', nm_path ''eth0'']]"
proof -
  let ?ok = "nm_machine\<lparr>subp_answer := (\<lambda>_ _. Inr ([], []))\<rparr>"
  have a: "conn_filename nm_machine ''eth0'' = Some (nm_path ''eth0'')"
    by (simp add: nm_machine_def quiet_machine_def)
  have b: "conn_filename ?ok ''eth0'' = Some (nm_path ''eth0'')"
    by (simp add: nm_machine_def quiet_machine_def)
  have v: "fst (NetworkManager_bring_up_interface nm_machine ''eth0'' initial) = Inr True \<and>
     logs (snd (NetworkManager_bring_up_interface nm_machine ''eth0'' initial)) =
       [LogExc (''Running interface command '' @
                 py_repr_list [''nmcli'', ''connection'', ''load'', nm_path ''eth0''] @
                 '' failed'')]"
    by (simp add: NetworkManager_bring_up_interface_def nm_machine_def quiet_machine_def
        initial_def alter_interface_def alter_interface_callable_def subp_subp_def emit_def
        logexc_def)
  show ?thesis
    using nm_load_failure_falls_back_to_ifname [OF a, of initial
            "[''nmcli'', ''connection'', ''load'', nm_path ''eth0'']" "[]" "[]"]
          nm_load_failure_falls_back_to_ifname [OF b, of initial "[]" "[]" "[]"]
          v
    by (simp add: nm_machine_def quiet_machine_def initial_def prod_eq_iff)
qed

text \<open>
  C2. The default \<open>bring_up_interfaces\<close> calls \<open>bring_up_interface\<close> on the names in
  order, each call starting in the state the call before it left (\<open>s i\<close> is the state
  before the call for the \<open>i\<close>-th name). When the calls for the names \<open>passed\<close> each
  return true, the result on \<open>passed\<close> is true and the state is the one the last call
  left: every name was attempted. When the call for the next name \<open>device\<close> then returns
  false, the result is false and the state is the one that call left, whatever names
  follow: no call is made for the names in \<open>rest\<close>.
\<close>

theorem bring_up_interfaces_short_circuit:
  assumes "\<forall>i<length passed. bring_up (passed ! i) (s i) = (Inr True, s (Suc i))"
  shows "NetworkActivator_bring_up_interfaces bring_up passed (s 0) =
           (Inr True, s (length passed)) \<and>
         (bring_up device (s (length passed)) = (Inr False, st2) \<longrightarrow>
            NetworkActivator_bring_up_interfaces bring_up (passed @ device # rest) (s 0) =
              (Inr False, st2))"
proof -
  have t: "NetworkActivator_bring_up_interfaces bring_up passed (s 0) =
             (Inr True, s (length passed))"
    using assms by (rule bring_up_interfaces_all_true)
  show ?thesis
    using t bring_up_interfaces_append [OF t, of "device # rest"] by simp
qed

theorem bring_up_interfaces_short_circuit_witness:
  "NetworkActivator_bring_up_interfaces
     (\<lambda>device calls. (Inr (device \<noteq> ''eth0''), Suc calls)) [''eth0'', ''eth1''] (0::nat) =
     (Inr False, 1) \<and>
   NetworkActivator_bring_up_interfaces
     (\<lambda>device calls. (Inr (device \<noteq> ''eth0''), Suc calls))
     [''eth1'', ''eth2'', ''eth0'', ''eth3''] (0::nat) = (Inr False, 3) \<and>
   NetworkActivator_bring_up_interfaces
     (\<lambda>device calls. (Inr (device \<noteq> ''eth0''), Suc calls)) [''eth1'', ''eth2''] (0::nat) =
     (Inr True, 2) \<and>
   bring_up_interfaces flaky_machine IfUpDownActivator [''eth0'', ''eth1'', ''eth2''] initial =
     (Inr False,
      \<lparr>trace = [Subp [''ifup'', ''eth0''], Subp [''ifup'', ''eth1'']],
       logs = [LogExc ''Running interface command ['ifup', 'eth1'] failed'']\<rparr>)"
proof -
  let ?mock = "\<lambda>device calls. (Inr (device \<noteq> ''eth0''), Suc calls) :: (exn + bool) \<times> nat"
  have a: "\<forall>i<length ([] :: string list). ?mock ([] ! i) i = (Inr True, Suc i)"
    by simp
  have b: "\<forall>i<length [''eth1'', ''eth2'']. ?mock ([''eth1'', ''eth2''] ! i) i = (Inr True, Suc i)"
    by (simp add: less_Suc_eq numeral_2_eq_2)
  let ?up = "bring_up_interface flaky_machine IfUpDownActivator"
  let ?st1 = "\<lparr>trace = [Subp [''ifup'', ''eth0'']], logs = []\<rparr>"
  let ?st2 = "\<lparr>trace = [Subp [''ifup'', ''eth0''], Subp [''ifup'', ''eth1'']],
       logs = [LogExc ''Running interface command ['ifup', 'eth1'] failed'']\<rparr>"
  let ?s = "\<lambda>i::nat. if i = 0 then initial else ?st1"
  have c: "\<forall>i<length [''eth0'']. ?up ([''eth0''] ! i) (?s i) = (Inr True, ?s (Suc i))"
    by (simp add: IfUpDown_bring_up_interface_def alter_interface_def
        alter_interface_callable_def subp_subp_def flaky_machine_def quiet_machine_def
        initial_def emit_def)
  have d: "?up ''eth1'' ?st1 = (Inr False, ?st2)"
    by (simp add: IfUpDown_bring_up_interface_def alter_interface_def
        alter_interface_callable_def subp_subp_def flaky_machine_def quiet_machine_def
        emit_def logexc_def repr_defs)
  have e: "NetworkActivator_bring_up_interfaces ?up ([''eth0''] @ ''eth1'' # [''eth2'']) (?s 0) =
             (Inr False, ?st2)"
    using bring_up_interfaces_short_circuit
            [of "[''eth0'']" ?up ?s "''eth1''" ?st2 "[''eth2'']", OF c] d
    by simp
  have f: "NetworkActivator_bring_up_interfaces ?mock [''eth0'', ''eth1''] 0 = (Inr False, 1) \<and>
           NetworkActivator_bring_up_interfaces ?mock [''eth1'', ''eth2'', ''eth0'', ''eth3''] 0 =
             (Inr False, 3) \<and>
           NetworkActivator_bring_up_interfaces ?mock [''eth1'', ''eth2''] 0 = (Inr True, 2)"
    using bring_up_interfaces_short_circuit
            [of "[]" ?mock "\<lambda>i. i" "''eth0''" 1 "[''eth1'']", OF a]
          bring_up_interfaces_short_circuit
            [of "[''eth1'', ''eth2'']" ?mock "\<lambda>i. i" "''eth0''" 3 "[''eth3'']", OF b]
    by simp
  show ?thesis
    using e f by simp
qed




subsection \<open>The selector\<close>

text \<open>
  C1. For a priority list of known identifiers only, each identifier stands for its
  class in the registry, and \<open>search_activator\<close> returns the first of these classes,
  in the order of the list, whose \<open>available()\<close> is true; it returns \<open>None\<close> when
  \<open>available()\<close> is false for all of them.
\<close>

theorem search_activator_first_available:
  "set priority \<subseteq> set DEFAULT_PRIORITY \<Longrightarrow>
   map NAME_TO_ACTIVATOR priority = map Some (List.map_filter NAME_TO_ACTIVATOR priority) \<and>
   fst (search_activator env priority st) =
     Inr (find (is_available env) (List.map_filter NAME_TO_ACTIVATOR priority)) \<and>
   ((\<forall>cls\<in>set (List.map_filter NAME_TO_ACTIVATOR priority). \<not> is_available env cls) \<longrightarrow>
      fst (search_activator env priority st) = Inr None)"
proof -
  assume known: "set priority \<subseteq> set DEFAULT_PRIORITY"
  have s: "fst (search_activator env priority st) =
     Inr (find (is_available env) (List.map_filter NAME_TO_ACTIVATOR priority))"
    using activator_classes_known [OF known] no_unknown [OF known]
    by (simp add: search_activator_def first_available_find)
  show ?thesis
    using activator_classes_known [OF known] s by (simp add: find_None_iff)
qed

theorem search_activator_first_available_witness:
  "fst (search_activator netplan_machine DEFAULT_PRIORITY initial) = Inr (Some NetplanActivator) \<and>
   fst (search_activator netplan_machine [''ifconfig'', ''networkd'', ''netplan''] initial) =
     Inr (Some NetworkdActivator) \<and>
   fst (search_activator quiet_machine DEFAULT_PRIORITY initial) = Inr None"
proof -
  have a: "set DEFAULT_PRIORITY \<subseteq> set DEFAULT_PRIORITY" by simp
  have b: "set [''ifconfig'', ''networkd'', ''netplan''] \<subseteq> set DEFAULT_PRIORITY"
    by (simp add: DEFAULT_PRIORITY_def)
  show ?thesis
    using search_activator_first_available [OF a, of netplan_machine initial]
          search_activator_first_available [OF b, of netplan_machine initial]
          search_activator_first_available [OF a, of quiet_machine initial]
    by (simp add: DEFAULT_PRIORITY_def NAME_TO_ACTIVATOR_def List.map_filter_simps
        netplan_machine_def quiet_machine_def)
qed

text \<open>
  C8. For a priority list that holds an identifier outside the five known ones,
  \<open>search_activator\<close> and \<open>select_activator\<close> raise a \<open>ValueError\<close> whose message
  lists the unknown identifiers, all of them and only them, in the order of the list.
  The state is the one they started in: no probe was run.
\<close>

theorem unknown_activators_rejected:
  "\<not> set priority \<subseteq> {''eni'', ''netplan'', ''network-manager'', ''networkd'', ''ifconfig''} \<Longrightarrow>
   search_activator env priority st =
     (Inl (ValueError (''Unknown activators provided in priority list: '' @
        py_repr_list (filter (\<lambda>i. i \<notin> {''eni'', ''netplan'', ''network-manager'', ''networkd'',
                                       ''ifconfig''}) priority))), st) \<and>
   select_activator env (Some priority) st =
     (Inl (ValueError (''Unknown activators provided in priority list: '' @
        py_repr_list (filter (\<lambda>i. i \<notin> {''eni'', ''netplan'', ''network-manager'', ''networkd'',
                                       ''ifconfig''}) priority))), st)"
proof -
  assume u: "\<not> set priority \<subseteq> {''eni'', ''netplan'', ''network-manager'', ''networkd'', ''ifconfig''}"
  have d: "set DEFAULT_PRIORITY = {''eni'', ''netplan'', ''network-manager'', ''networkd'', ''ifconfig''}"
    by (simp add: DEFAULT_PRIORITY_def)
  have "filter (\<lambda>i. i \<notin> set DEFAULT_PRIORITY) priority \<noteq> []"
    using u unfolding d by (auto simp: filter_empty_conv)
  then have s: "search_activator env priority st =
     (Inl (ValueError (''Unknown activators provided in priority list: '' @
        py_repr_list (filter (\<lambda>i. i \<notin> set DEFAULT_PRIORITY) priority))), st)"
    by (simp add: search_activator_def)
  then show ?thesis
    unfolding d by (simp add: select_activator_def)
qed

theorem unknown_activators_rejected_witness:
  "search_activator netplan_machine [''foo''] initial =
     (Inl (ValueError ''Unknown activators provided in priority list: ['foo']''), initial) \<and>
   select_activator netplan_machine (Some [''netplan'', ''foo'', ''eni'', ''bar'']) initial =
     (Inl (ValueError ''Unknown activators provided in priority list: ['foo', 'bar']''), initial)"
proof -
  have a: "\<not> set [''foo''] \<subseteq> {''eni'', ''netplan'', ''network-manager'', ''networkd'', ''ifconfig''}"
    by simp
  have b: "\<not> set [''netplan'', ''foo'', ''eni'', ''bar'']
             \<subseteq> {''eni'', ''netplan'', ''network-manager'', ''networkd'', ''ifconfig''}"
    by simp
  show ?thesis
    using unknown_activators_rejected [OF a, of netplan_machine initial]
          unknown_activators_rejected [OF b, of netplan_machine initial]
    by (simp add: repr_defs)
qed



end
